theory Spec2Isabelle
  imports Complex_Main "HOL-Library.Multiset" "HOL-Library.AList" "HOL-Library.Product_Lexorder"
    "HOL-Library.List_Lexorder" "HOL-Library.Char_ord"
begin

section \<open>The data frame\<close>

text \<open>
  The program of \<^verbatim>\<open>post_processing.py\<close> works on one pandas data frame, \<^verbatim>\<open>self.df\<close>. A frame
  is modelled row-wise: the list of its columns with their runtime types, and the list of
  its rows in index order. \<^verbatim>\<open>sort_df\<close> sorts with \<^verbatim>\<open>ignore_index=True\<close>, so the index is the
  range \<open>0..<n\<close> and a boolean mask over the frame is the list of its values by position.

  A cell is a null (\<^verbatim>\<open>None\<close>, \<^verbatim>\<open>NaN\<close>, \<^verbatim>\<open>NA\<close>, \<^verbatim>\<open>NaT\<close>), a number, an infinity of
  floating point (\<open>Inf True\<close> the positive one) or a text. Numbers are rationals: rounding
  and overflow of floating point are outside the model. The runtime types are the four
  that \<^verbatim>\<open>apply_df_types\<close> assigns.
\<close>

datatype cell = Null | Num rat | Inf bool | Str string

datatype dtype = Object | Float64 | Int64 | Datetime64

type_synonym row = "string \<Rightarrow> cell"

type_synonym mask = "bool list"

record frame =
  columns :: "(string \<times> dtype) list"
  rows :: "row list"

text \<open>
  Every failure of the program is an exception that ends the run. The model returns it as a
  value. A \<^verbatim>\<open>TypeError\<close> or \<^verbatim>\<open>ValueError\<close> carries the library's message and the notes the
  program appends to it before re-raising.
\<close>

datatype annotation =
    For_column_and_value string cell
  | As_scaling_value_for_column string

datatype error =
    KeyError_column string
  | KeyError_columns "string list"
  | KeyError_operator string
  | TypeError string "annotation list"
  | ValueError string "annotation list"
  | EmptyDataError
  | RuntimeError_row_count nat nat
  | RuntimeError_custom_scaling "cell option"
  | KeyError_key string
  | IndexError
  | IndexingError
  | OverflowError string

definition bnd :: "error + 'a \<Rightarrow> ('a \<Rightarrow> error + 'b) \<Rightarrow> error + 'b" where
  "bnd m f = (case m of Inl e \<Rightarrow> Inl e | Inr v \<Rightarrow> f v)"

fun traverse :: "('a \<Rightarrow> error + 'b) \<Rightarrow> 'a list \<Rightarrow> error + 'b list" where
  "traverse f [] = Inr []"
| "traverse f (x # xs) =
     (case f x of
        Inl e \<Rightarrow> Inl e
      | Inr y \<Rightarrow> (case traverse f xs of Inl e \<Rightarrow> Inl e | Inr ys \<Rightarrow> Inr (y # ys)))"

subsection \<open>Library operations\<close>

text \<open>
  The program leaves five decisions to pandas and NumPy. The model takes them as the
  fields of a record, so that every theorem below holds whatever the library does there:
  \<^item> \<open>scalar_cast t v\<close> is \<^verbatim>\<open>pd.Series(v, dtype=t).iloc[0]\<close>, which may raise;
  \<^item> \<open>elem_compare t c x v\<close> is one element of \<^verbatim>\<open>operator(df[column], v)\<close> on a column of
    type \<open>t\<close>, which may raise;
  \<^item> \<open>argsort ks\<close> is the indexer of \<^verbatim>\<open>sort_values\<close> on a single key with the default
    \<^verbatim>\<open>kind='quicksort'\<close>;
  \<^item> \<open>true_div t x d\<close> is one element of a division of a column of type \<open>t\<close>;
  \<^item> \<open>setitem_dtype t vs\<close> is the type of a column of type \<open>t\<close> after \<open>vs\<close> have been
    written into it, or the error of a write the library refuses.
\<close>

datatype cmp = Eq | Ne | Lt | Gt | Le | Ge

record lib =
  scalar_cast :: "dtype \<Rightarrow> cell \<Rightarrow> error + cell"
  elem_compare :: "dtype \<Rightarrow> cmp \<Rightarrow> cell \<Rightarrow> cell \<Rightarrow> error + bool"
  argsort :: "cell list \<Rightarrow> nat list"
  true_div :: "dtype \<Rightarrow> cell \<Rightarrow> cell \<Rightarrow> error + cell"
  setitem_dtype :: "dtype \<Rightarrow> cell list \<Rightarrow> error + dtype"

subsection \<open>Column and mask access\<close>

text \<open>\<^verbatim>\<open>df[column]\<close>: the type and the cells of a column, \<^verbatim>\<open>KeyError\<close> when it is missing.\<close>

definition getitem :: "frame \<Rightarrow> string \<Rightarrow> error + (dtype \<times> cell list)" where
  "getitem df column =
     (case map_of (columns df) column of
        None \<Rightarrow> Inl (KeyError_column column)
      | Some t \<Rightarrow> Inr (t, map (\<lambda>r. r column) (rows df)))"

text \<open>
  \<^verbatim>\<open>xs[mask]\<close>: the entries at the positions the mask selects. The library aligns the mask
  with the index first: it ignores what the mask holds beyond the index and refuses a mask
  that does not cover the index.
\<close>

definition select :: "mask \<Rightarrow> 'a list \<Rightarrow> 'a list" where
  "select m xs = map snd (filter fst (zip m xs))"

definition getitem_mask :: "'a list \<Rightarrow> mask \<Rightarrow> error + 'a list" where
  "getitem_mask xs m = (if length m < length xs then Inl IndexingError else Inr (select m xs))"

text \<open>
  \<^verbatim>\<open>a & b\<close> and \<^verbatim>\<open>a | b\<close> on boolean series: elementwise, a position that one operand lacks
  counting as false.
\<close>

fun mask_and :: "mask \<Rightarrow> mask \<Rightarrow> mask" where
  "mask_and [] bs = map (\<lambda>_. False) bs"
| "mask_and (a # as) [] = map (\<lambda>_. False) (a # as)"
| "mask_and (a # as) (b # bs) = (a \<and> b) # mask_and as bs"

fun mask_or :: "mask \<Rightarrow> mask \<Rightarrow> mask" where
  "mask_or [] bs = bs"
| "mask_or (a # as) [] = a # as"
| "mask_or (a # as) (b # bs) = (a \<or> b) # mask_or as bs"

section \<open>Filter conditions\<close>

text \<open>
  A filter condition is the list \<^verbatim>\<open>[column, operator, value]\<close> of the configuration; the
  value \<^verbatim>\<open>None\<close> is \<open>Null\<close>.
\<close>

type_synonym filter_cond = "string \<times> string \<times> cell"

definition op_lookup :: "string \<Rightarrow> cmp option" where
  "op_lookup s =
     map_of [(''=='', Eq), (''!='', Ne), (''<'', Lt), (''>'', Gt), (''<='', Le), (''>='', Ge)] s"

text \<open>
  The handler of \<^verbatim>\<open>row_filter\<close> is written \<^verbatim>\<open>except TypeError or ValueError as e\<close>. Python
  evaluates \<^verbatim>\<open>TypeError or ValueError\<close> to \<^verbatim>\<open>TypeError\<close>, so the handler catches a
  \<^verbatim>\<open>TypeError\<close> only: it appends the note and raises the error again. Every other error
  passes unchanged.
\<close>

fun except_TypeError :: "annotation \<Rightarrow> error \<Rightarrow> error" where
  "except_TypeError n (TypeError msg ns) = TypeError msg (ns @ [n])"
| "except_TypeError n e = e"

definition row_filter :: "lib \<Rightarrow> filter_cond \<Rightarrow> frame \<Rightarrow> error + mask" where
  "row_filter L f df =
     (case f of (column, str_op, v) \<Rightarrow>
        (case op_lookup str_op of
           None \<Rightarrow> Inl (KeyError_operator str_op)
         | Some operator \<Rightarrow>
             if v = Null then
               bnd (getitem df column) (\<lambda>(t, cells).
                 Inr (if operator = Eq then map (\<lambda>x. x = Null) cells
                      else map (\<lambda>x. x \<noteq> Null) cells))
             else
               bnd (getitem df column) (\<lambda>(t, cells).
                 (case scalar_cast L t v of
                    Inl e \<Rightarrow> Inl (except_TypeError (For_column_and_value column v) e)
                  | Inr v' \<Rightarrow>
                      (case traverse (\<lambda>x. elem_compare L t operator x v') cells of
                         Inl e \<Rightarrow> Inl (except_TypeError (For_column_and_value column v') e)
                       | Inr m \<Rightarrow> Inr m)))))"

text \<open>\<^verbatim>\<open>reduce(op, masks)\<close> without an initial value, on a list that is not empty.\<close>

definition reduce1 :: "(mask \<Rightarrow> mask \<Rightarrow> mask) \<Rightarrow> mask list \<Rightarrow> mask" where
  "reduce1 f ms = foldl f (hd ms) (tl ms)"

text \<open>
  \<^verbatim>\<open>self.df[mask].empty\<close> holds when the selection has no row or the frame has no column.
\<close>

definition filter_df ::
    "lib \<Rightarrow> frame \<Rightarrow> filter_cond list \<Rightarrow> filter_cond list \<Rightarrow> filter_cond list \<Rightarrow> error + mask" where
  "filter_df L df and_filters or_filters series_filters =
     bnd (if and_filters \<noteq> []
          then bnd (traverse (\<lambda>f. row_filter L f df) and_filters) (\<lambda>ms. Inr (reduce1 mask_and ms))
          else Inr (replicate (length (rows df)) True)) (\<lambda>mask1.
     bnd (if or_filters \<noteq> []
          then bnd (traverse (\<lambda>f. row_filter L f df) or_filters)
                 (\<lambda>ms. Inr (mask_and mask1 (reduce1 mask_or ms)))
          else Inr mask1) (\<lambda>mask2.
     bnd (if series_filters \<noteq> []
          then bnd (traverse (\<lambda>f. row_filter L f df) series_filters)
                 (\<lambda>ms. Inr (mask_and mask2 (reduce1 mask_or ms)))
          else Inr mask2) (\<lambda>mask3.
     if select mask3 (rows df) = [] \<or> columns df = [] then Inl EmptyDataError
     else Inr mask3)))"

section \<open>Sorting\<close>

text \<open>
  \<^verbatim>\<open>sort_values\<close> sorts ascending and puts nulls last. The order of the cells is the order of
  their keys: numbers by value between the two infinities, texts by their characters. A
  column holds numbers or texts, so the order between a number and a text never decides.
\<close>

fun cell_key :: "cell \<Rightarrow> nat \<times> rat \<times> string" where
  "cell_key (Inf b) = (if b then 2 else 0, 0, [])"
| "cell_key (Num q) = (1, q, [])"
| "cell_key (Str s) = (3, 0, s)"
| "cell_key Null = (4, 0, [])"

text \<open>
  With two or more keys the library sorts by a lexicographic indexer, which is stable. With
  one key it calls the argsort of the \<^verbatim>\<open>kind\<close> argument, whose default is
  \<^verbatim>\<open>'quicksort'\<close>: the library documents that only \<^verbatim>\<open>'mergesort'\<close> and \<^verbatim>\<open>'stable'\<close> are
  stable. \<^verbatim>\<open>sort_df\<close> passes no \<^verbatim>\<open>kind\<close>.
\<close>

definition sort_values :: "lib \<Rightarrow> string list \<Rightarrow> row list \<Rightarrow> row list" where
  "sort_values L by rs =
     (case by of
        [k] \<Rightarrow> map (\<lambda>i. rs ! i) (argsort L (map (\<lambda>r. r k) rs))
      | _ \<Rightarrow> sort_key (\<lambda>r. map (\<lambda>k. cell_key (r k)) by) rs)"

definition sort_df :: "lib \<Rightarrow> frame \<Rightarrow> string \<Rightarrow> string list \<Rightarrow> error + frame" where
  "sort_df L df x series_columns =
     (let sorting_columns = [x] @ (if series_columns \<noteq> [] then [hd series_columns] else [])
      in case filter (\<lambda>c. map_of (columns df) c = None) sorting_columns of
           c # _ \<Rightarrow> Inl (KeyError_column c)
         | [] \<Rightarrow> Inr (df\<lparr>rows := sort_values L sorting_columns (rows df)\<rparr>))"

section \<open>The row count of the selection\<close>





section \<open>Scaling\<close>

text \<open>
  The axis of the configuration is a dictionary with the column under \<^verbatim>\<open>"value"\<close> and,
  optionally, \<^verbatim>\<open>"scaling"\<close>: a dictionary with \<^verbatim>\<open>"column"\<close> (\<^verbatim>\<open>"name"\<close>, \<^verbatim>\<open>"series"\<close>,
  \<^verbatim>\<open>"x_value"\<close>) or \<^verbatim>\<open>"custom"\<close>. A key that is absent, or whose value is \<^verbatim>\<open>None\<close> or an
  empty dictionary, is \<open>None\<close>.
\<close>

record column_scaling =
  col_name :: string
  col_series :: "int option"
  col_x_value :: "cell option"

record scaling_spec =
  by_column :: "column_scaling option"
  custom :: "cell option"

record axis =
  axis_value :: string
  scaling :: "scaling_spec option"

text \<open>The truth value Python gives a value of the configuration.\<close>

fun py_truthy :: "cell option \<Rightarrow> bool" where
  "py_truthy None = False"
| "py_truthy (Some Null) = False"
| "py_truthy (Some (Num q)) = (q \<noteq> 0)"
| "py_truthy (Some (Inf b)) = True"
| "py_truthy (Some (Str s)) = (s \<noteq> [])"

text \<open>\<^verbatim>\<open>xs[i]\<close> on a Python list: a negative index counts from the end.\<close>

definition py_index :: "'a list \<Rightarrow> int \<Rightarrow> error + 'a" where
  "py_index xs i =
     (if 0 \<le> i \<and> i < int (length xs) then Inr (xs ! nat i)
      else if i < 0 \<and> - int (length xs) \<le> i then Inr (xs ! nat (int (length xs) + i))
      else Inl IndexError)"

definition is_numeric_dtype :: "dtype \<Rightarrow> bool" where
  "is_numeric_dtype t = (t = Float64 \<or> t = Int64)"

text \<open>
  The divisor is one value or an array. NumPy divides arrays of one length elementwise,
  stretches an array of length one, and refuses every other pair of lengths.
\<close>

datatype scaling_val = Scalar cell | Vector "cell list"

definition np_true_divide :: "lib \<Rightarrow> dtype \<Rightarrow> cell list \<Rightarrow> scaling_val \<Rightarrow> error + cell list" where
  "np_true_divide L t ys sv =
     (case sv of
        Scalar d \<Rightarrow> traverse (\<lambda>y. true_div L t y d) ys
      | Vector ds \<Rightarrow>
          if length ys = length ds then traverse (\<lambda>(y, d). true_div L t y d) (zip ys ds)
          else if length ys = 1 then traverse (\<lambda>d. true_div L t (hd ys) d) ds
          else if length ds = 1 then traverse (\<lambda>y. true_div L t y (hd ds)) ys
          else Inl (ValueError ''operands could not be broadcast together'' []))"

text \<open>
  \<^verbatim>\<open>self.df.loc[mask, y] = vals\<close>: the values go, in order, to the rows the mask selects, and
  nowhere else. The library refuses values that are not as many as these rows.
\<close>

fun loc_set :: "mask \<Rightarrow> row list \<Rightarrow> string \<Rightarrow> cell list \<Rightarrow> row list" where
  "loc_set (True # ms) (r # rs) y (v # vs) = r(y := v) # loc_set ms rs y vs"
| "loc_set (False # ms) (r # rs) y vs = r # loc_set ms rs y vs"
| "loc_set ms rs y vs = rs"

definition loc_setitem :: "lib \<Rightarrow> frame \<Rightarrow> mask \<Rightarrow> string \<Rightarrow> cell list \<Rightarrow> error + frame" where
  "loc_setitem L df msk y vals =
     bnd (getitem_mask (rows df) msk) (\<lambda>selected.
     bnd (getitem df y) (\<lambda>(t, cells).
       if length vals \<noteq> length selected
       then Inl (ValueError ''cannot assign values of another length'' [])
       else bnd (setitem_dtype L t vals) (\<lambda>t'.
         Inr (df\<lparr>columns := map (\<lambda>(c, u). if c = y then (c, t') else (c, u)) (columns df),
                 rows := loc_set msk (rows df) y vals\<rparr>))))"

text \<open>
  The handler of the constant in \<^verbatim>\<open>transform_axis\<close> is \<^verbatim>\<open>except ValueError as e\<close>.
\<close>

fun except_ValueError :: "annotation \<Rightarrow> error \<Rightarrow> error" where
  "except_ValueError n (ValueError msg ns) = ValueError msg (ns @ [n])"
| "except_ValueError n e = e"

text \<open>
  \<^verbatim>\<open>a &= b\<close> on boolean series changes \<open>a\<close> in place: the result keeps the index of \<open>a\<close>, a
  position that \<open>b\<close> lacks counting as false and what \<open>b\<close> holds beyond \<open>a\<close> being dropped.
\<close>

fun mask_iand :: "mask \<Rightarrow> mask \<Rightarrow> mask" where
  "mask_iand [] bs = []"
| "mask_iand (a # as) [] = map (\<lambda>_. False) (a # as)"
| "mask_iand (a # as) (b # bs) = (a \<and> b) # mask_iand as bs"

text \<open>
  The mask of the scaling values: a copy of the mask of the group, replaced by the series
  mask when there is one, then narrowed in place by the mask of the x-value when there is
  one.
\<close>

definition scaling_mask_of :: "mask \<Rightarrow> mask option \<Rightarrow> mask option \<Rightarrow> mask" where
  "scaling_mask_of msk scaling_series_mask scaling_x_value_mask =
     (let scaling_mask = (case scaling_series_mask of None \<Rightarrow> msk | Some s \<Rightarrow> s)
      in case scaling_x_value_mask of
           None \<Rightarrow> scaling_mask
         | Some xm \<Rightarrow> mask_iand scaling_mask xm)"

text \<open>
  \<^verbatim>\<open>transform_axis\<close>. \<^verbatim>\<open>scaling_mask = scaling_series_mask\<close> binds the same object, and
  \<^verbatim>\<open>scaling_mask &= scaling_x_value_mask\<close> changes it in place: the function returns the
  series mask as it leaves it, next to the frame.
\<close>

definition transform_axis ::
    "lib \<Rightarrow> frame \<Rightarrow> mask \<Rightarrow> axis \<Rightarrow> (dtype \<times> cell list) option \<Rightarrow> mask option \<Rightarrow> mask option
      \<Rightarrow> error + (frame \<times> mask option)" where
  "transform_axis L df msk ax scaling_column scaling_series_mask scaling_x_value_mask =
     (case scaling_column of
        Some (st, scol) \<Rightarrow>
          bnd (getitem_mask (rows df) msk) (\<lambda>selected.
          bnd (getitem df (axis_value ax)) (\<lambda>(yt, ycells).
            if \<not> is_numeric_dtype yt \<or> \<not> is_numeric_dtype st
            then Inl (TypeError ''Cannot scale column'' [])
            else
              let scaling_mask = scaling_mask_of msk scaling_series_mask scaling_x_value_mask;
                  series_mask' = (case scaling_series_mask of
                                    None \<Rightarrow> None
                                  | Some s \<Rightarrow> Some scaling_mask)
              in bnd (getitem_mask scol scaling_mask) (\<lambda>picked.
                 let scaling_val = (if length picked = 1 then Scalar (hd picked)
                                    else Vector picked)
                 in bnd (np_true_divide L yt (select msk ycells) scaling_val) (\<lambda>vals.
                    bnd (loc_setitem L df msk (axis_value ax) vals) (\<lambda>df'.
                      Inr (df', series_mask'))))))
      | None \<Rightarrow>
          (case scaling ax of
             None \<Rightarrow> Inl (KeyError_key ''scaling'')
           | Some sc \<Rightarrow>
               if py_truthy (custom sc) then
                 bnd (getitem_mask (rows df) msk) (\<lambda>selected.
                 bnd (getitem df (axis_value ax)) (\<lambda>(yt, ycells).
                   (case scalar_cast L yt (the (custom sc)) of
                      Inl e \<Rightarrow>
                        Inl (except_ValueError (As_scaling_value_for_column (axis_value ax)) e)
                    | Inr scaling_value \<Rightarrow>
                        bnd (traverse (\<lambda>y. true_div L yt y scaling_value) (select msk ycells))
                          (\<lambda>vals.
                        bnd (loc_setitem L df msk (axis_value ax) vals) (\<lambda>df'.
                          Inr (df', scaling_series_mask))))))
               else Inr (df, scaling_series_mask)))"

text \<open>
  The loop of \<^verbatim>\<open>transform_df_data\<close> over the series filters: each filter is evaluated on
  the frame as the groups before it have left it.
\<close>

fun transform_groups ::
    "lib \<Rightarrow> frame \<Rightarrow> mask \<Rightarrow> axis \<Rightarrow> (dtype \<times> cell list) option \<Rightarrow> mask option \<Rightarrow> mask option
      \<Rightarrow> filter_cond list \<Rightarrow> error + frame" where
  "transform_groups L df msk ax sc ssm sxm [] = Inr df"
| "transform_groups L df msk ax sc ssm sxm (f # fs) =
     bnd (row_filter L f df) (\<lambda>m.
     bnd (transform_axis L df (mask_and msk m) ax sc ssm sxm) (\<lambda>(df', ssm').
       transform_groups L df' msk ax sc ssm' sxm fs))"

definition transform_df_data ::
    "lib \<Rightarrow> frame \<Rightarrow> axis \<Rightarrow> axis \<Rightarrow> filter_cond list \<Rightarrow> mask \<Rightarrow> error + frame" where
  "transform_df_data L df x_axis y_axis series_filters msk =
     (case scaling y_axis of
        None \<Rightarrow> Inr df
      | Some sc \<Rightarrow>
          bnd (case by_column sc of
                 Some col \<Rightarrow>
                   bnd (getitem df (col_name col)) (\<lambda>scaling_column.
                   bnd (case col_series col of
                          None \<Rightarrow> Inr None
                        | Some k \<Rightarrow>
                            bnd (py_index series_filters k) (\<lambda>f.
                            bnd (row_filter L f df) (\<lambda>m. Inr (Some m)))) (\<lambda>scaling_series_mask.
                   bnd (if py_truthy (col_x_value col)
                        then bnd (getitem df (axis_value x_axis)) (\<lambda>(t, cells).
                             bnd (traverse (\<lambda>x. elem_compare L t Eq x (the (col_x_value col)))
                                    cells) (\<lambda>m. Inr (Some m)))
                        else Inr None) (\<lambda>scaling_x_value_mask.
                     Inr (Some scaling_column, scaling_series_mask, scaling_x_value_mask))))
               | None \<Rightarrow>
                   if \<not> py_truthy (custom sc) then Inl (RuntimeError_custom_scaling (custom sc))
                   else Inr (None, None, None))
            (\<lambda>(scaling_column, scaling_series_mask, scaling_x_value_mask).
               if series_filters \<noteq> []
               then transform_groups L df msk y_axis scaling_column scaling_series_mask
                      scaling_x_value_mask series_filters
               else bnd (transform_axis L df msk y_axis scaling_column scaling_series_mask
                           scaling_x_value_mask) (\<lambda>(df', ssm'). Inr df')))"

section \<open>The composed mask, as the specification states it\<close>



section \<open>A library to evaluate examples\<close>

text \<open>
  The theorems hold for every library. The examples are evaluated with the one below, which
  follows pandas and NumPy on numbers, infinities, nulls and texts:
  \<^item> a text is cast to a float as Python's \<^verbatim>\<open>float\<close> reads it (blanks around it, a sign,
    digits with single underscores between them, a point, an exponent, or the words
    \<^verbatim>\<open>inf\<close>, \<^verbatim>\<open>infinity\<close> and \<^verbatim>\<open>nan\<close> in either case), and to a nullable integer as Python's
    \<^verbatim>\<open>int\<close> reads it; an integer must fit 64 bits; dates in texts are not parsed;
  \<^item> numbers are compared by value and texts by their characters;
  \<^item> a single key is sorted as described below;
  \<^item> a division is that of floating point without rounding: a division by zero gives an
    infinity, or a null for \<open>0 / 0\<close>;
  \<^item> a fraction or an infinity written into an integer column is refused.
\<close>

definition digit_val :: "char \<Rightarrow> nat option" where
  "digit_val c =
     map_of [(CHR ''0'', 0), (CHR ''1'', 1), (CHR ''2'', 2), (CHR ''3'', 3), (CHR ''4'', 4),
             (CHR ''5'', 5), (CHR ''6'', 6), (CHR ''7'', 7), (CHR ''8'', 8), (CHR ''9'', 9)] c"

text \<open>
  A group of digits, with single underscores between digits only; \<open>prev\<close> tells that the
  character before was a digit.
\<close>

fun digits_val :: "nat \<Rightarrow> bool \<Rightarrow> string \<Rightarrow> nat option" where
  "digits_val acc prev [] = (if prev then Some acc else None)"
| "digits_val acc prev (c # cs) =
     (if c = CHR ''_'' then (if prev \<and> cs \<noteq> [] then digits_val acc False cs else None)
      else (case digit_val c of None \<Rightarrow> None | Some d \<Rightarrow> digits_val (10 * acc + d) True cs))"

definition is_blank :: "char \<Rightarrow> bool" where
  "is_blank c = (c \<in> set [CHR '' '', CHR 0x09, CHR 0x0A, CHR 0x0B, CHR 0x0C, CHR 0x0D])"

definition strip :: "string \<Rightarrow> string" where
  "strip s = rev (dropWhile is_blank (rev (dropWhile is_blank s)))"

definition split_sign :: "string \<Rightarrow> bool \<times> string" where
  "split_sign s =
     (case s of
        [] \<Rightarrow> (False, [])
      | c # cs \<Rightarrow> if c = CHR ''-'' then (True, cs) else if c = CHR ''+'' then (False, cs)
                  else (False, s))"

definition signed_digits :: "string \<Rightarrow> int option" where
  "signed_digits s =
     (case split_sign s of (neg, body) \<Rightarrow>
        map_option (\<lambda>n. if neg then - int n else int n) (digits_val 0 False body))"

definition mantissa :: "string \<Rightarrow> rat option" where
  "mantissa s =
     (let ip = takeWhile (\<lambda>c. c \<noteq> CHR ''.'') s;
          fp = drop 1 (dropWhile (\<lambda>c. c \<noteq> CHR ''.'') s)
      in if ip = [] \<and> fp = [] then None
         else (case (if ip = [] then Some 0 else digits_val 0 False ip,
                     if fp = [] then Some 0 else digits_val 0 False fp) of
                 (Some a, Some b) \<Rightarrow>
                   Some (of_nat a + of_nat b / 10 ^ length (filter (\<lambda>c. c \<noteq> CHR ''_'') fp))
               | _ \<Rightarrow> None))"

definition unsigned_decimal :: "string \<Rightarrow> rat option" where
  "unsigned_decimal s =
     (let is_e = (\<lambda>c. c = CHR ''e'' \<or> c = CHR ''E'');
          m = takeWhile (\<lambda>c. \<not> is_e c) s;
          e = dropWhile (\<lambda>c. \<not> is_e c) s
      in if e = [] then mantissa m
         else (case (mantissa m, signed_digits (tl e)) of
                 (Some q, Some k) \<Rightarrow>
                   Some (if 0 \<le> k then q * 10 ^ nat k else q / 10 ^ nat (- k))
               | _ \<Rightarrow> None))"

definition lower_word :: "string \<Rightarrow> string" where
  "lower_word s =
     map (\<lambda>c. case map_of [(CHR ''I'', CHR ''i''), (CHR ''N'', CHR ''n''), (CHR ''F'', CHR ''f''),
                             (CHR ''T'', CHR ''t''), (CHR ''Y'', CHR ''y''), (CHR ''A'', CHR ''a'')] c of
                 None \<Rightarrow> c
               | Some d \<Rightarrow> d) s"

definition py_float :: "string \<Rightarrow> cell option" where
  "py_float s =
     (case split_sign (strip s) of (neg, body) \<Rightarrow>
        if lower_word body = ''inf'' \<or> lower_word body = ''infinity'' then Some (Inf (\<not> neg))
        else if lower_word body = ''nan'' then Some Null
        else map_option (\<lambda>q. Num (if neg then - q else q)) (unsigned_decimal body))"

definition py_int :: "string \<Rightarrow> int option" where
  "py_int s = signed_digits (strip s)"

definition is_integral :: "rat \<Rightarrow> bool" where
  "is_integral q = (q = of_int \<lfloor>q\<rfloor>)"

definition fits_int64 :: "rat \<Rightarrow> bool" where
  "fits_int64 q = (- (2 ^ 63) \<le> q \<and> q < 2 ^ 63)"

fun pandas_cast :: "dtype \<Rightarrow> cell \<Rightarrow> error + cell" where
  "pandas_cast Object v = Inr v"
| "pandas_cast t Null = Inr Null"
| "pandas_cast Float64 (Num q) = Inr (Num q)"
| "pandas_cast Float64 (Inf b) = Inr (Inf b)"
| "pandas_cast Float64 (Str s) =
     (case py_float s of
        Some v \<Rightarrow> Inr v
      | None \<Rightarrow> Inl (ValueError ''could not convert string to float'' []))"
| "pandas_cast Int64 (Num q) =
     (if is_integral q \<and> fits_int64 q then Inr (Num q)
      else Inl (TypeError ''cannot safely cast non-equivalent value to int64'' []))"
| "pandas_cast Int64 (Inf b) =
     Inl (TypeError ''cannot safely cast non-equivalent value to int64'' [])"
| "pandas_cast Int64 (Str s) =
     (case py_int s of
        Some n \<Rightarrow> if fits_int64 (of_int n) then Inr (Num (of_int n))
                  else Inl (OverflowError ''Python int too large to convert to C long'')
      | None \<Rightarrow> Inl (ValueError ''invalid literal for int()'' []))"
| "pandas_cast Datetime64 (Num q) = Inr (Num q)"
| "pandas_cast Datetime64 (Inf b) = Inl (ValueError ''cannot convert float infinity'' [])"
| "pandas_cast Datetime64 (Str s) = Inl (ValueError ''Unknown datetime string format'' [])"

fun cmp_holds :: "cmp \<Rightarrow> 'a::linorder \<Rightarrow> 'a \<Rightarrow> bool" where
  "cmp_holds Eq a b = (a = b)"
| "cmp_holds Ne a b = (a \<noteq> b)"
| "cmp_holds Lt a b = (a < b)"
| "cmp_holds Gt a b = (a > b)"
| "cmp_holds Le a b = (a \<le> b)"
| "cmp_holds Ge a b = (a \<ge> b)"

fun pandas_compare :: "dtype \<Rightarrow> cmp \<Rightarrow> cell \<Rightarrow> cell \<Rightarrow> error + bool" where
  "pandas_compare t c (Num a) (Num b) = Inr (cmp_holds c a b)"
| "pandas_compare t c (Str a) (Str b) = Inr (cmp_holds c a b)"
| "pandas_compare t c Null v = Inr (c = Ne \<and> t \<noteq> Int64)"
| "pandas_compare t c x Null = Inr (c = Ne \<and> t \<noteq> Int64)"
| "pandas_compare t c (Str a) v =
     (if c = Eq then Inr False else if c = Ne then Inr True
      else Inl (TypeError ''comparison not supported between these types'' []))"
| "pandas_compare t c x (Str b) =
     (if c = Eq then Inr False else if c = Ne then Inr True
      else Inl (TypeError ''comparison not supported between these types'' []))"
| "pandas_compare t c x v = Inr (cmp_holds c (cell_key x) (cell_key v))"

text \<open>
  The indexer of a single key with the default kind. The library takes the nulls out and
  lists their positions last, in their order. On 64-bit numbers NumPy sorts the rest with
  vector instructions: up to eight keys go, with their positions, into the eight lanes of
  one register, the lanes beyond the keys holding the greatest value, and through a bitonic
  network of compare-exchanges. A compare-exchange of the lanes \<open>i < j\<close> swaps them, key and
  position, when the key of lane \<open>j\<close> is less than the key of lane \<open>i\<close>; equal keys stay
  where they are. The network compares lanes that are not neighbours, so equal keys can
  leave it in another order than they entered. Texts, and longer lists of numbers (for
  which the library goes on with wider networks), are sorted here by insertion.
\<close>

type_synonym lane = "(rat \<times> nat) option"

definition lane_less :: "lane \<Rightarrow> lane \<Rightarrow> bool" where
  "lane_less a b =
     (case a of
        None \<Rightarrow> False
      | Some (ka, i) \<Rightarrow> (case b of None \<Rightarrow> True | Some (kb, j) \<Rightarrow> ka < kb))"

definition compare_exchange :: "lane list \<Rightarrow> nat \<times> nat \<Rightarrow> lane list" where
  "compare_exchange v c =
     (case c of (i, j) \<Rightarrow>
        if lane_less (v ! j) (v ! i) then v[i := v ! j, j := v ! i] else v)"

definition bitonic8 :: "(nat \<times> nat) list" where
  "bitonic8 =
     [(0, 1), (2, 3), (4, 5), (6, 7),
      (0, 3), (1, 2), (4, 7), (5, 6),
      (0, 1), (2, 3), (4, 5), (6, 7),
      (0, 7), (1, 6), (2, 5), (3, 4),
      (0, 2), (1, 3), (4, 6), (5, 7),
      (0, 1), (2, 3), (4, 5), (6, 7)]"

definition network_argsort :: "(rat \<times> nat) list \<Rightarrow> nat list" where
  "network_argsort kps =
     map snd (List.map_filter id
       (foldl compare_exchange (map Some kps @ replicate (8 - length kps) None) bitonic8))"

fun num_of :: "cell \<Rightarrow> rat option" where
  "num_of (Num q) = Some q"
| "num_of c = None"

definition pandas_argsort :: "cell list \<Rightarrow> nat list" where
  "pandas_argsort ks =
     (let present = filter (\<lambda>i. ks ! i \<noteq> Null) [0..<length ks];
          nulls = filter (\<lambda>i. ks ! i = Null) [0..<length ks]
      in (if length present \<le> 8 \<and> list_all (\<lambda>i. num_of (ks ! i) \<noteq> None) present
          then network_argsort (map (\<lambda>i. (the (num_of (ks ! i)), i)) present)
          else sort_key (\<lambda>i. cell_key (ks ! i)) present) @ nulls)"

fun pandas_true_div :: "dtype \<Rightarrow> cell \<Rightarrow> cell \<Rightarrow> error + cell" where
  "pandas_true_div t (Num a) (Num b) =
     Inr (if b \<noteq> 0 then Num (a / b) else if a = 0 then Null else Inf (0 < a))"
| "pandas_true_div t (Num a) (Inf s) = Inr (Num 0)"
| "pandas_true_div t (Inf s) (Num b) = Inr (Inf (if b < 0 then \<not> s else s))"
| "pandas_true_div t (Str a) d = Inl (TypeError ''unsupported operand type(s) for /'' [])"
| "pandas_true_div t y (Str b) = Inl (TypeError ''unsupported operand type(s) for /'' [])"
| "pandas_true_div t y d = Inr Null"

definition pandas_setitem_dtype :: "dtype \<Rightarrow> cell list \<Rightarrow> error + dtype" where
  "pandas_setitem_dtype t vs =
     (if t = Int64 \<and> list_ex (\<lambda>v. case v of Num q \<Rightarrow> \<not> is_integral q | Inf b \<Rightarrow> True
                                     | _ \<Rightarrow> False) vs
      then Inl (TypeError ''Invalid value for dtype Int64'' [])
      else Inr t)"

definition pandas_lib :: lib where
  "pandas_lib =
     \<lparr>scalar_cast = pandas_cast, elem_compare = pandas_compare, argsort = pandas_argsort,
      true_div = pandas_true_div, setitem_dtype = pandas_setitem_dtype\<rparr>"

section \<open>Example frames\<close>

definition mk_row :: "rat \<Rightarrow> string \<Rightarrow> cell \<Rightarrow> row" where
  "mk_row x s y = (\<lambda>c. Null)(''x'' := Num x, ''series'' := Str s, ''y'' := y)"

definition example_columns :: "(string \<times> dtype) list" where
  "example_columns = [(''x'', Int64), (''series'', Object), (''y'', Float64)]"

text \<open>A frame with nulls in the column \<open>y\<close>.\<close>

definition df_nulls :: frame where
  "df_nulls = \<lparr>columns = example_columns,
               rows = [mk_row 1 ''A'' (Num 10), mk_row 1 ''B'' Null, mk_row 2 ''A'' (Num 30),
                       mk_row 2 ''B'' Null]\<rparr>"



text \<open>
  Two series and three x-values: the complete grid of six rows, and the grid with a seventh
  row that repeats a pair.
\<close>

definition df_grid :: frame where
  "df_grid = \<lparr>columns = example_columns,
              rows = [mk_row 1 ''A'' (Num 10), mk_row 1 ''B'' (Num 20), mk_row 2 ''A'' (Num 30),
                      mk_row 2 ''B'' (Num 40), mk_row 3 ''A'' (Num 50), mk_row 3 ''B'' (Num 60)]\<rparr>"


text \<open>
  The frame of the scaling examples: two series \<open>A\<close> and \<open>B\<close> at \<open>x = 1\<close> and \<open>x = 2\<close>, with
  \<open>y = 10, 20, 30, 40\<close>; an x-axis, a y-axis scaled by the constant 10, a y-axis scaled by
  the value of \<open>y\<close> in the first series at \<open>x = 1\<close>, and the filters of the two series.
\<close>

definition df_scale :: frame where
  "df_scale = \<lparr>columns = example_columns,
               rows = [mk_row 1 ''A'' (Num 10), mk_row 1 ''B'' (Num 20), mk_row 2 ''A'' (Num 30),
                       mk_row 2 ''B'' (Num 40)]\<rparr>"

definition x_axis_ex :: axis where
  "x_axis_ex = \<lparr>axis_value = ''x'', scaling = None\<rparr>"

definition y_axis_custom :: axis where
  "y_axis_custom =
     \<lparr>axis_value = ''y'', scaling = Some \<lparr>by_column = None, custom = Some (Num 10)\<rparr>\<rparr>"

definition y_axis_baseline :: axis where
  "y_axis_baseline =
     \<lparr>axis_value = ''y'',
      scaling = Some \<lparr>by_column = Some \<lparr>col_name = ''y'', col_series = Some 0,
                                         col_x_value = Some (Num 1)\<rparr>,
                      custom = None\<rparr>\<rparr>"

definition series_AB :: "filter_cond list" where
  "series_AB = [(''series'', ''=='', Str ''A''), (''series'', ''=='', Str ''B'')]"

text \<open>A frame that is not sorted, with two rows of equal x-value and series.\<close>

definition df_unsorted :: frame where
  "df_unsorted = \<lparr>columns = example_columns,
                  rows = [mk_row 2 ''B'' (Num 10), mk_row 1 ''B'' (Num 20),
                          mk_row 2 ''A'' (Num 30), mk_row 1 ''A'' (Num 40),
                          mk_row 1 ''A'' (Num 50)]\<rparr>"


section \<open>Scaling by the column of a series, as the specification states it\<close>






section \<open>Scaling by a constant, row by row\<close>



section \<open>Properties of the filter engine\<close>

lemma bnd_Inr_iff: "bnd m f = Inr y \<longleftrightarrow> (\<exists>v. m = Inr v \<and> f v = Inr y)"
  by (cases m) (simp_all add: bnd_def)

lemma bnd_InrE:
  assumes "bnd m f = Inr y"
  obtains v where "m = Inr v" and "f v = Inr y"
  using assms by (auto simp: bnd_Inr_iff)

lemma traverse_Inr:
  "traverse f xs = Inr ys \<Longrightarrow> list_all2 (\<lambda>x y. f x = Inr y) xs ys"
  by (induction xs arbitrary: ys) (auto split: sum.splits)

lemma traverse_map: "traverse (\<lambda>x. Inr (g x)) xs = Inr (map g xs)"
  by (induction xs) simp_all


lemma traverse_Inr_nth: "traverse f xs = Inr ys \<Longrightarrow> i < length xs \<Longrightarrow> f (xs ! i) = Inr (ys ! i)"
  by (drule traverse_Inr) (auto dest: list_all2_nthD)













lemmas eval_defs = row_filter_def filter_df_def bnd_def getitem_def op_lookup_def pandas_lib_def
  mk_row_def example_columns_def select_def reduce1_def is_integral_def fits_int64_def

lemmas parse_defs = py_float_def py_int_def split_sign_def strip_def is_blank_def lower_word_def
  unsigned_decimal_def mantissa_def signed_digits_def digit_val_def



text \<open>
  C6. On a frame that has the column \<open>y\<close>, the condition \<open>(y, ==, null)\<close> evaluates to the
  mask of the rows whose \<open>y\<close> is null, and \<open>(y, !=, null)\<close> to the mask of the rows whose
  \<open>y\<close> is not null.
\<close>

theorem row_filter_null_semantics:
  assumes "map_of (columns df) y = Some t"
  shows "row_filter L (y, ''=='', Null) df = Inr (map (\<lambda>r. r y = Null) (rows df))
         \<and> row_filter L (y, ''!='', Null) df = Inr (map (\<lambda>r. r y \<noteq> Null) (rows df))"
  using assms by (simp add: row_filter_def op_lookup_def getitem_def bnd_def)

theorem row_filter_null_semantics_witness:
  "map_of (columns df_nulls) ''y'' = Some Float64
   \<and> row_filter pandas_lib (''y'', ''=='', Null) df_nulls = Inr [False, True, False, True]
   \<and> row_filter pandas_lib (''y'', ''!='', Null) df_nulls = Inr [True, False, True, False]"
proof -
  have h: "map_of (columns df_nulls) ''y'' = Some Float64"
    by (simp add: df_nulls_def example_columns_def)
  from row_filter_null_semantics [OF h, of pandas_lib] show ?thesis
    using h by (simp add: df_nulls_def mk_row_def)
qed

subsection \<open>The handler of a failed coercion\<close>

text \<open>
  A literal that cannot be cast to the type of its column: the note with the column and the
  value is appended when the library raises a \<^verbatim>\<open>TypeError\<close>, and is not when it raises a
  \<^verbatim>\<open>ValueError\<close>.
\<close>

lemma row_filter_cast_ValueError:
  assumes "map_of (columns df) c = Some t" "op_lookup s = Some operator" "v \<noteq> Null"
    and "scalar_cast L t v = Inl (ValueError msg ns)"
  shows "row_filter L (c, s, v) df = Inl (ValueError msg ns)"
  using assms by (simp add: row_filter_def getitem_def bnd_def)

lemma row_filter_cast_TypeError:
  assumes "map_of (columns df) c = Some t" "op_lookup s = Some operator" "v \<noteq> Null"
    and "scalar_cast L t v = Inl (TypeError msg ns)"
  shows "row_filter L (c, s, v) df = Inl (TypeError msg (ns @ [For_column_and_value c v]))"
  using assms by (simp add: row_filter_def getitem_def bnd_def)

lemma row_filter_TypeError_annotated_example:
  "row_filter pandas_lib (''series'', ''<'', Num 1) df_grid
     = Inl (TypeError ''comparison not supported between these types''
             [For_column_and_value ''series'' (Num 1)])"
  by (simp add: eval_defs df_grid_def)


text \<open>
  C8. The claim asks for the note on every failed coercion. On a \<open>float64\<close> column the
  literal \<^verbatim>\<open>"abc"\<close> fails with the library's \<^verbatim>\<open>ValueError\<close>, which \<^verbatim>\<open>row_filter\<close> lets pass
  without the column and the value.
\<close>

theorem row_filter_ValueError_unannotated:
  "row_filter pandas_lib (''y'', ''=='', Str ''abc'') df_grid
     = Inl (ValueError ''could not convert string to float'' [])"
  by (simp add: eval_defs parse_defs df_grid_def)


section \<open>Properties of the row-count check\<close>













section \<open>Properties of the scaling\<close>

subsection \<open>Selections and assignments through a mask\<close>

lemma select_Cons [simp]:
  "select (b # m) (x # xs) = (if b then x # select m xs else select m xs)"
  by (simp add: select_def)

lemma select_Nil [simp]: "select [] xs = []" "select m [] = []"
  by (simp_all add: select_def)


lemma length_loc_set [simp]: "length (loc_set m rs y vs) = length rs"
  by (induction m rs y vs rule: loc_set.induct) simp_all

lemma loc_set_no_values [simp]: "loc_set m rs y [] = rs"
  by (induction m rs y "[] :: cell list" rule: loc_set.induct) simp_all

lemma loc_set_frame:
  "i < length rs \<Longrightarrow> c \<noteq> y \<or> \<not> (i < length m \<and> m ! i) \<Longrightarrow>
   (loc_set m rs y vs ! i) c = (rs ! i) c"
proof (induction m rs y vs arbitrary: i rule: loc_set.induct)
  case (1 ms r rs y v vs)
  then show ?case by (cases i) auto
next
  case (2 ms r rs y vs)
  then show ?case by (cases i) auto
qed simp_all


lemma loc_setitem_Inr:
  assumes "loc_setitem L df msk y vals = Inr df'"
  shows "rows df' = loc_set msk (rows df) y vals" and "length (rows df) \<le> length msk"
  using assms
  by (auto simp: loc_setitem_def getitem_mask_def getitem_def bnd_def
      split: if_splits option.splits sum.splits)



text \<open>What \<open>transform_axis\<close> leaves of the rows.\<close>

lemma transform_axis_rows:
  assumes "transform_axis L df msk ax sc ssm sxm = Inr (df', ssm')"
  shows "\<exists>vals. rows df' = loc_set msk (rows df) (axis_value ax) vals"
proof (cases sc)
  case None
  show ?thesis
  proof (cases "scaling ax")
    case n: None
    with None assms show ?thesis by (simp add: transform_axis_def)
  next
    case (Some s)
    show ?thesis
    proof (cases "py_truthy (custom s)")
      case False
      with None Some assms have "df' = df" by (simp add: transform_axis_def)
      then show ?thesis by (intro exI [of _ "[]"]) simp
    next
      case True
      from assms None Some True obtain sel where
        r1: "bnd (getitem df (axis_value ax)) (\<lambda>(yt, ycells).
               (case scalar_cast L yt (the (custom s)) of
                  Inl e \<Rightarrow>
                    Inl (except_ValueError (As_scaling_value_for_column (axis_value ax)) e)
                | Inr scaling_value \<Rightarrow>
                    bnd (traverse (\<lambda>y. true_div L yt y scaling_value) (select msk ycells))
                      (\<lambda>vals.
                    bnd (loc_setitem L df msk (axis_value ax) vals) (\<lambda>df'.
                      Inr (df', ssm))))) = Inr (df', ssm')"
        by (auto simp: transform_axis_def elim: bnd_InrE)
      then obtain yt ycells where
        r2: "(case scalar_cast L yt (the (custom s)) of
                  Inl e \<Rightarrow>
                    Inl (except_ValueError (As_scaling_value_for_column (axis_value ax)) e)
                | Inr scaling_value \<Rightarrow>
                    bnd (traverse (\<lambda>y. true_div L yt y scaling_value) (select msk ycells))
                      (\<lambda>vals.
                    bnd (loc_setitem L df msk (axis_value ax) vals) (\<lambda>df'.
                      Inr (df', ssm)))) = Inr (df', ssm')"
        by (auto elim!: bnd_InrE)
      then obtain c' where
        r3: "bnd (traverse (\<lambda>y. true_div L yt y c') (select msk ycells))
                      (\<lambda>vals.
                    bnd (loc_setitem L df msk (axis_value ax) vals) (\<lambda>df'.
                      Inr (df', ssm))) = Inr (df', ssm')"
        by (cases "scalar_cast L yt (the (custom s))") auto
      then obtain vals where "loc_setitem L df msk (axis_value ax) vals = Inr df'"
        by (auto elim!: bnd_InrE)
      then show ?thesis by (auto dest: loc_setitem_Inr(1))
    qed
  qed
next
  case (Some p)
  with assms obtain vals where "loc_setitem L df msk (axis_value ax) vals = Inr df'"
    by (auto simp: transform_axis_def bnd_Inr_iff Let_def split: sum.splits prod.splits if_splits)
  then show ?thesis by (auto dest: loc_setitem_Inr(1))
qed

lemma transform_axis_frame:
  assumes "transform_axis L df msk ax sc ssm sxm = Inr (df', ssm')"
  shows "length (rows df') = length (rows df)"
    and "i < length (rows df) \<Longrightarrow> c \<noteq> axis_value ax \<or> \<not> (i < length msk \<and> msk ! i) \<Longrightarrow>
         (rows df' ! i) c = (rows df ! i) c"
proof -
  from transform_axis_rows [OF assms] obtain vals
    where r: "rows df' = loc_set msk (rows df) (axis_value ax) vals" by blast
  show "length (rows df') = length (rows df)" by (simp add: r)
  show "i < length (rows df) \<Longrightarrow> c \<noteq> axis_value ax \<or> \<not> (i < length msk \<and> msk ! i) \<Longrightarrow>
         (rows df' ! i) c = (rows df ! i) c"
    by (simp add: r loc_set_frame)
qed

lemma mask_and_nth_True:
  "i < length (mask_and a b) \<Longrightarrow> mask_and a b ! i \<Longrightarrow> i < length a \<and> a ! i \<and> i < length b \<and> b ! i"
proof (induction a b arbitrary: i rule: mask_and.induct)
  case (2 a as)
  then show ?case by (cases i) auto
next
  case (3 a as b bs)
  then show ?case by (cases i) auto
qed simp_all

lemma transform_groups_frame:
  assumes "transform_groups L df msk ax sc ssm sxm fs = Inr df'"
  shows "length (rows df') = length (rows df) \<and>
         (\<forall>i < length (rows df). \<forall>c. c \<noteq> axis_value ax \<or> \<not> (i < length msk \<and> msk ! i) \<longrightarrow>
            (rows df' ! i) c = (rows df ! i) c)"
  using assms
proof (induction fs arbitrary: df ssm)
  case Nil
  then show ?case by simp
next
  case (Cons f fs)
  from Cons.prems obtain m d1 s1 where
    m: "row_filter L f df = Inr m"
    and t: "transform_axis L df (mask_and msk m) ax sc ssm sxm = Inr (d1, s1)"
    and g: "transform_groups L d1 msk ax sc s1 sxm fs = Inr df'"
    by (auto simp: bnd_Inr_iff)
  note f1 = transform_axis_frame [OF t]
  note f2 = Cons.IH [OF g]
  have stay: "(rows d1 ! i) c = (rows df ! i) c"
    if "i < length (rows df)" "c \<noteq> axis_value ax \<or> \<not> (i < length msk \<and> msk ! i)" for i c
  proof -
    have "c \<noteq> axis_value ax \<or> \<not> (i < length (mask_and msk m) \<and> mask_and msk m ! i)"
      using that(2) mask_and_nth_True [of i msk m] by blast
    then show ?thesis using f1(2) [OF that(1)] by blast
  qed
  show ?case
    using f1(1) f2 stay by simp
qed

lemma transform_df_data_frame:
  assumes "transform_df_data L df x_axis y_axis fs msk = Inr df'"
  shows "length (rows df') = length (rows df) \<and>
         (\<forall>i < length (rows df). \<forall>c. c \<noteq> axis_value y_axis \<or> \<not> (i < length msk \<and> msk ! i) \<longrightarrow>
            (rows df' ! i) c = (rows df ! i) c)"
proof (cases "scaling y_axis")
  case None
  with assms show ?thesis by (simp add: transform_df_data_def)
next
  case (Some s)
  with assms obtain sc ssm sxm where
    r: "(if fs \<noteq> [] then transform_groups L df msk y_axis sc ssm sxm fs
         else bnd (transform_axis L df msk y_axis sc ssm sxm) (\<lambda>(df', ssm'). Inr df')) = Inr df'"
    by (auto simp: transform_df_data_def bnd_Inr_iff)
  show ?thesis
  proof (cases "fs = []")
    case True
    with r obtain s' where "transform_axis L df msk y_axis sc ssm sxm = Inr (df', s')"
      by (auto simp: bnd_Inr_iff)
    from transform_axis_frame [OF this] show ?thesis by blast
  next
    case False
    with r have "transform_groups L df msk y_axis sc ssm sxm fs = Inr df'" by simp
    from transform_groups_frame [OF this] show ?thesis .
  qed
qed

lemmas scale_defs = transform_df_data_def transform_axis_def loc_setitem_def getitem_mask_def
  np_true_divide_def scaling_mask_of_def is_numeric_dtype_def pandas_setitem_dtype_def
  py_index_def df_scale_def x_axis_ex_def y_axis_custom_def y_axis_baseline_def series_AB_def

subsection \<open>The frame of a scaling\<close>

text \<open>
  Claim C9. A scaling that returns, by a column or by a constant, for one group
  (\<^verbatim>\<open>transform_axis\<close>) or for all groups (\<^verbatim>\<open>transform_df_data\<close>), keeps the number of rows,
  keeps every column other than the y-axis column in every row, and keeps the y-axis value
  of every row that the mask does not select: it writes only into the masked positions of
  the y-axis column.
\<close>

theorem scaling_frame:
  "(transform_axis L df msk ax sc ssm sxm = Inr (df', ssm') \<longrightarrow>
      length (rows df') = length (rows df) \<and>
      (\<forall>i < length (rows df). \<forall>c. c \<noteq> axis_value ax \<or> \<not> msk ! i \<longrightarrow>
         (rows df' ! i) c = (rows df ! i) c))
   \<and> (transform_df_data L df x_axis ax fs msk = Inr df'' \<longrightarrow>
      length (rows df'') = length (rows df) \<and>
      (\<forall>i < length (rows df). \<forall>c. c \<noteq> axis_value ax \<or> \<not> msk ! i \<longrightarrow>
         (rows df'' ! i) c = (rows df ! i) c))"
  using transform_axis_frame [of L df msk ax sc ssm sxm df' ssm']
    transform_df_data_frame [of L df x_axis ax fs msk df'']
  by blast

theorem scaling_frame_witness:
  "\<exists>d. transform_axis pandas_lib df_scale [True, False, True, False] y_axis_custom None None None
          = Inr (d, None)
       \<and> length (rows d) = 4
       \<and> map (\<lambda>r. (r ''x'', r ''series'', r ''y'')) (rows d)
           = [(Num 1, Str ''A'', Num 1), (Num 1, Str ''B'', Num 20),
              (Num 2, Str ''A'', Num 3), (Num 2, Str ''B'', Num 40)]"
proof -
  have "\<exists>d. transform_axis pandas_lib df_scale [True, False, True, False] y_axis_custom
               None None None = Inr (d, None)
          \<and> map (\<lambda>r. (r ''x'', r ''series'', r ''y'')) (rows d)
              = [(Num 1, Str ''A'', Num 1), (Num 1, Str ''B'', Num 20),
                 (Num 2, Str ''A'', Num 3), (Num 2, Str ''B'', Num 40)]"
    by (simp add: eval_defs scale_defs)
  then show ?thesis
  proof (elim exE conjE)
    fix d
    assume h: "transform_axis pandas_lib df_scale [True, False, True, False] y_axis_custom
                 None None None = Inr (d, None)"
      and v: "map (\<lambda>r. (r ''x'', r ''series'', r ''y'')) (rows d)
              = [(Num 1, Str ''A'', Num 1), (Num 1, Str ''B'', Num 20),
                 (Num 2, Str ''A'', Num 3), (Num 2, Str ''B'', Num 40)]"
    from scaling_frame [of pandas_lib df_scale "[True, False, True, False]" y_axis_custom
        None None None d None, THEN conjunct1, rule_format, OF h, THEN conjunct1]
    have "length (rows d) = 4"
      by (simp add: df_scale_def)
    with h v show ?thesis
      by (intro exI [of _ d] conjI)
  qed
qed

subsection \<open>Scaling by a column\<close>







text \<open>The series mask, as \<^verbatim>\<open>transform_axis\<close> threads it from one group to the next.\<close>

lemma length_mask_iand [simp]: "length (mask_iand a b) = length a"
  by (induction a b rule: mask_iand.induct) simp_all














text \<open>The same instance, evaluated on the program alone.\<close>

lemma baseline_from_excluded_row_example:
  "\<exists>d. transform_df_data pandas_lib df_scale x_axis_ex y_axis_baseline series_AB
          [False, False, True, True] = Inr d
       \<and> map (\<lambda>r. (r ''x'', r ''series'', r ''y'')) (rows d)
           = [(Num 1, Str ''A'', Num 10), (Num 1, Str ''B'', Num 20),
              (Num 2, Str ''A'', Num 3), (Num 2, Str ''B'', Num 4)]"
  by (simp add: eval_defs scale_defs)

subsection \<open>Scaling by a constant\<close>
















text \<open>A row that two series filters select is divided twice.\<close>

lemma constant_scaling_twice_example:
  "bnd (transform_df_data pandas_lib df_scale x_axis_ex y_axis_custom
          [(''series'', ''=='', Str ''A''), (''x'', ''=='', Num 1)] [True, True, True, True])
     (\<lambda>d. Inr (map (\<lambda>r. (r ''x'', r ''series'', r ''y'')) (rows d)))
   = Inr [(Num 1, Str ''A'', Num (1 / 10)), (Num 1, Str ''B'', Num 2),
          (Num 2, Str ''A'', Num 3), (Num 2, Str ''B'', Num 40)]"
  by (simp add: eval_defs scale_defs)

text \<open>A constant zero, with no scaling column, is refused before any row is touched.\<close>

lemma custom_zero_rejected:
  assumes "scaling y_axis = Some sc" "by_column sc = None" "custom sc = Some (Num 0)"
  shows "transform_df_data L df x_axis y_axis fs msk = Inl (RuntimeError_custom_scaling (Some (Num 0)))"
  using assms by (simp add: transform_df_data_def bnd_def)

section \<open>Properties of the sort\<close>





lemmas sort_defs = sort_df_def sort_values_def pandas_lib_def pandas_argsort_def
  network_argsort_def bitonic8_def compare_exchange_def lane_less_def List.map_filter_simps
  mk_row_def example_columns_def bnd_def




text \<open>
  On the frame of the witness the same sort on one key leaves the rows of equal x-axis value
  in the order they had.
\<close>

lemma sort_df_single_key_example:
  "bnd (sort_df pandas_lib df_unsorted ''x'' [])
     (\<lambda>d. Inr (map (\<lambda>r. r ''y'') (rows d)))
   = Inr [Num 20, Num 40, Num 50, Num 10, Num 30]"
  by (simp add: sort_defs df_unsorted_def upt_rec numeral_eq_Suc)

end
